theory Spec2Isabelle
  imports Complex_Main
begin

section \<open>Team Requirement Analyzer: the calculation block of team_size.py\<close>

text \<open>
  The script reads ten numbers from sidebar widgets, evaluates a straight line of
  arithmetic assignments (lines 141 to 167) and prints the results in metric tiles,
  tables and two downloadable reports.

  Numbers: the eight widgets declared with float bounds return Python floats, the two
  declared with integer bounds (\<open>avg_tenure\<close>, \<open>no_of_days\<close>) return Python ints.
  A float is embedded as a \<open>real\<close> and an int as an \<open>int\<close>, converted with
  \<open>of_int\<close> where Python promotes it in a mixed operation. The arithmetic below is
  therefore exact: the rounding of binary64 operations, overflow to infinity and NaN
  are outside this development, and every statement about a float value reads
  ``in exact arithmetic''.
\<close>

subsection \<open>Inputs\<close>

record inputs =
  loan_amt_current :: real
  pf_percentage :: real
  roi_per_day :: real
  avg_ticket_size :: real
  avg_tenure :: int
  no_of_days :: int
  loan_amt_t1 :: real
  loan_amt_t2 :: real
  sanction_sales_target :: real
  collection_target :: real

text \<open>The \<open>value=\<close> argument of each \<open>number_input\<close> call, lines 45 to 135.\<close>

definition default_inputs :: inputs where
  "default_inputs =
     \<lparr>loan_amt_current = 10000000,
      pf_percentage = 11.8,
      roi_per_day = 1.0,
      avg_ticket_size = 30000,
      avg_tenure = 25,
      no_of_days = 30,
      loan_amt_t1 = 8000000,
      loan_amt_t2 = 5000000,
      sanction_sales_target = 250000,
      collection_target = 8000000\<rparr>"





subsection \<open>Python operators\<close>

text \<open>
  The script defines no exception of its own and has no \<open>raise\<close>, \<open>try\<close> around the
  calculation, or \<open>assert\<close>: the one way the calculation block can fail is the
  exception Python raises for \<open>/\<close> with a zero divisor.
\<close>

datatype error = ZeroDivisionError

definition py_truediv :: "real \<Rightarrow> real \<Rightarrow> error + real" where
  "py_truediv a b = (if b = 0 then Inl ZeroDivisionError else Inr (a / b))"

text \<open>\<open>int(x)\<close> on a float truncates toward zero.\<close>

definition py_int :: "real \<Rightarrow> int" where
  "py_int x = (if x < 0 then \<lceil>x\<rceil> else \<lfloor>x\<rfloor>)"

text \<open>
  \<open>x % y\<close> on floats takes the sign of the divisor; the script only writes \<open>% 1\<close>,
  so the divisor is never zero.
\<close>

definition py_mod :: "real \<Rightarrow> real \<Rightarrow> real" where
  "py_mod x y = x - of_int \<lfloor>x / y\<rfloor> * y"

text \<open>\<open>sum(xs)\<close> adds from the left, starting at 0; \<open>d.values()\<close> keeps insertion order.\<close>

definition py_sum :: "int list \<Rightarrow> int" where
  "py_sum xs = foldl (+) 0 xs"

definition dict_values :: "('k \<times> 'v) list \<Rightarrow> 'v list" where
  "dict_values d = map snd d"

subsection \<open>The calculation block, lines 141 to 167\<close>

definition pf_amount :: "inputs \<Rightarrow> real" where
  "pf_amount i = (pf_percentage i / 100) * loan_amt_current i"

definition amt_in_bank :: "inputs \<Rightarrow> real" where
  "amt_in_bank i = loan_amt_current i - pf_amount i"

definition repayment_amt :: "inputs \<Rightarrow> real" where
  "repayment_amt i =
     loan_amt_current i + (loan_amt_current i * (roi_per_day i / 100) * of_int (avg_tenure i))"

definition no_of_loans :: "inputs \<Rightarrow> error + real" where
  "no_of_loans i = py_truediv (loan_amt_current i) (avg_ticket_size i)"

definition no_sanction_sales :: "inputs \<Rightarrow> error + real" where
  "no_sanction_sales i =
     (case py_truediv (loan_amt_current i) (of_int (no_of_days i)) of
        Inl e \<Rightarrow> Inl e
      | Inr daily \<Rightarrow> py_truediv daily (sanction_sales_target i))"

definition interest_current :: "inputs \<Rightarrow> real" where
  "interest_current i = loan_amt_current i * (roi_per_day i / 100) * of_int (avg_tenure i)"

definition interest_t1 :: "inputs \<Rightarrow> real" where
  "interest_t1 i = loan_amt_t1 i * (roi_per_day i / 100) * of_int (avg_tenure i)"

definition interest_t2 :: "inputs \<Rightarrow> real" where
  "interest_t2 i = loan_amt_t2 i * (roi_per_day i / 100) * of_int (avg_tenure i)"

definition collection_current :: "inputs \<Rightarrow> real" where
  "collection_current i = (loan_amt_current i + interest_current i) * 0.11"

definition collection_t1 :: "inputs \<Rightarrow> real" where
  "collection_t1 i = (loan_amt_t1 i + interest_t1 i) * 0.78"

definition collection_t2 :: "inputs \<Rightarrow> real" where
  "collection_t2 i = (loan_amt_t2 i + interest_t2 i) * 0.11"

definition total_collection_required :: "inputs \<Rightarrow> real" where
  "total_collection_required i = collection_current i + collection_t1 i + collection_t2 i"

definition no_collection :: "inputs \<Rightarrow> error + real" where
  "no_collection i = py_truediv (total_collection_required i) (collection_target i)"

subsection \<open>Displayed integers\<close>

text \<open>Line 191 (and 354, 414): the tile shows \<open>int(no_of_loans)\<close>.\<close>

definition number_of_loans_metric :: "real \<Rightarrow> int" where
  "number_of_loans_metric loans = py_int loans"

text \<open>Line 198: the total staff tile, one inline expression.\<close>

definition total_staff_metric :: "real \<Rightarrow> real \<Rightarrow> int" where
  "total_staff_metric nss nc =
     py_int nss + (if py_mod nss 1 > 0 then 1 else 0)
     + py_int nc + (if py_mod nc 1 > 0 then 1 else 0)"

text \<open>Lines 288 to 291: the dictionary behind the bar chart, the summary table and the report.\<close>

definition team_rounded :: "real \<Rightarrow> real \<Rightarrow> (string \<times> int) list" where
  "team_rounded nss nc =
     [(''Sanction & Sales'', py_int nss + (if py_mod nss 1 > 0 then 1 else 0)),
      (''Collection'', py_int nc + (if py_mod nc 1 > 0 then 1 else 0))]"

text \<open>Lines 373 and 417: \<open>sum(team_rounded.values())\<close>.\<close>

definition summary_total_staff :: "real \<Rightarrow> real \<Rightarrow> int" where
  "summary_total_staff nss nc = py_sum (dict_values (team_rounded nss nc))"

subsection \<open>One pass of the script\<close>

text \<open>
  Everything the page shows that is computed from the inputs. The three quotients are
  evaluated in the order of the source, and the first zero divisor ends the pass.
\<close>

record outputs =
  out_pf_amount :: real
  out_amt_in_bank :: real
  out_repayment_amt :: real
  out_no_of_loans :: real
  out_loans_shown :: int
  out_no_sanction_sales :: real
  out_interest_current :: real
  out_interest_t1 :: real
  out_interest_t2 :: real
  out_collection_current :: real
  out_collection_t1 :: real
  out_collection_t2 :: real
  out_total_collection_required :: real
  out_no_collection :: real
  out_team_rounded :: "(string \<times> int) list"
  out_total_staff_metric :: int
  out_summary_total_staff :: int

definition calculation :: "inputs \<Rightarrow> error + outputs" where
  "calculation i =
     (case no_of_loans i of
        Inl e \<Rightarrow> Inl e
      | Inr loans \<Rightarrow>
     (case no_sanction_sales i of
        Inl e \<Rightarrow> Inl e
      | Inr nss \<Rightarrow>
     (case no_collection i of
        Inl e \<Rightarrow> Inl e
      | Inr nc \<Rightarrow>
          Inr \<lparr>out_pf_amount = pf_amount i,
               out_amt_in_bank = amt_in_bank i,
               out_repayment_amt = repayment_amt i,
               out_no_of_loans = loans,
               out_loans_shown = number_of_loans_metric loans,
               out_no_sanction_sales = nss,
               out_interest_current = interest_current i,
               out_interest_t1 = interest_t1 i,
               out_interest_t2 = interest_t2 i,
               out_collection_current = collection_current i,
               out_collection_t1 = collection_t1 i,
               out_collection_t2 = collection_t2 i,
               out_total_collection_required = total_collection_required i,
               out_no_collection = nc,
               out_team_rounded = team_rounded nss nc,
               out_total_staff_metric = total_staff_metric nss nc,
               out_summary_total_staff = summary_total_staff nss nc\<rparr>)))"




section \<open>Properties\<close>

lemmas block_defs = no_of_loans_def no_sanction_sales_def no_collection_def
  py_truediv_def pf_amount_def amt_in_bank_def repayment_amt_def interest_current_def
  interest_t1_def interest_t2_def collection_current_def collection_t1_def collection_t2_def
  total_collection_required_def

lemmas display_defs = number_of_loans_metric_def total_staff_metric_def
  team_rounded_def summary_total_staff_def py_sum_def dict_values_def py_int_def py_mod_def

subsection \<open>The rounding expression\<close>

text \<open>
  \<open>int(x) + (1 if x % 1 > 0 else 0)\<close> is written out at lines 198, 214, 224, 289 and
  290. On a non-negative argument it is the ceiling; on a negative one \<open>int\<close> rounds
  up already and the increment is still added, so the hypothesis is needed.
\<close>

lemma round_up_ceiling:
  "0 \<le> x \<Longrightarrow> py_int x + (if py_mod x 1 > 0 then 1 else 0) = \<lceil>x\<rceil>"
  by (simp add: py_int_def py_mod_def)
     (smt (verit) ceiling_altdef of_int_floor_cancel floor_correct)

lemma round_up_floor:
  "0 \<le> x \<Longrightarrow>
     py_int x + (if py_mod x 1 > 0 then 1 else 0) = \<lfloor>x\<rfloor> + (if 0 < frac x then 1 else 0)"
  by (simp add: py_int_def py_mod_def frac_def)


subsection \<open>The default scenario\<close>

text \<open>
  C1. With every widget at its default, the pass succeeds with fee amount 1,180,000,
  bank amount 8,820,000, repayment 12,500,000, 333 loans shown (exactly 1000/3),
  interest 2,500,000 / 2,000,000 / 1,250,000, collections 1,375,000 / 7,800,000 /
  687,500, total collection 9,862,500, exact headcounts 4/3 and 789/640, both rounded
  to 2, and a total staff of 4 in the tile and in the summary.
\<close>

theorem default_scenario:
  "calculation default_inputs =
     Inr \<lparr>out_pf_amount = 1180000,
          out_amt_in_bank = 8820000,
          out_repayment_amt = 12500000,
          out_no_of_loans = 1000 / 3,
          out_loans_shown = 333,
          out_no_sanction_sales = 4 / 3,
          out_interest_current = 2500000,
          out_interest_t1 = 2000000,
          out_interest_t2 = 1250000,
          out_collection_current = 1375000,
          out_collection_t1 = 7800000,
          out_collection_t2 = 687500,
          out_total_collection_required = 9862500,
          out_no_collection = 789 / 640,
          out_team_rounded = [(''Sanction & Sales'', 2), (''Collection'', 2)],
          out_total_staff_metric = 4,
          out_summary_total_staff = 4\<rparr>"
  by (simp add: calculation_def block_defs display_defs default_inputs_def)

subsection \<open>Interest and collection per period\<close>

text \<open>
  C2. For every input record the three interest amounts are
  \<open>D * (roi_per_day / 100) * avg_tenure\<close> with the same rate and tenure, and the three
  collection amounts are principal plus interest times 11/100, 78/100 and 11/100. The
  percentages printed beside them (10\%, 75\%, 15\%, line 252) are not the ones used:
  an amount agrees with its printed percentage only when principal plus interest is 0.
\<close>

theorem collection_amounts:
  "interest_current i = loan_amt_current i * (roi_per_day i / 100) * of_int (avg_tenure i) \<and>
   interest_t1 i = loan_amt_t1 i * (roi_per_day i / 100) * of_int (avg_tenure i) \<and>
   interest_t2 i = loan_amt_t2 i * (roi_per_day i / 100) * of_int (avg_tenure i) \<and>
   collection_current i = (loan_amt_current i + interest_current i) * (11 / 100) \<and>
   collection_t1 i = (loan_amt_t1 i + interest_t1 i) * (78 / 100) \<and>
   collection_t2 i = (loan_amt_t2 i + interest_t2 i) * (11 / 100) \<and>
   (collection_current i = (loan_amt_current i + interest_current i) * (10 / 100)
      \<longleftrightarrow> loan_amt_current i + interest_current i = 0) \<and>
   (collection_t1 i = (loan_amt_t1 i + interest_t1 i) * (75 / 100)
      \<longleftrightarrow> loan_amt_t1 i + interest_t1 i = 0) \<and>
   (collection_t2 i = (loan_amt_t2 i + interest_t2 i) * (15 / 100)
      \<longleftrightarrow> loan_amt_t2 i + interest_t2 i = 0)"
proof -
  have w: "x * (11 / 100) = x * (10 / 100) \<longleftrightarrow> x = 0"
          "x * (78 / 100) = x * (75 / 100) \<longleftrightarrow> x = 0"
          "x * (11 / 100) = x * (15 / 100) \<longleftrightarrow> x = 0" for x :: real
    by auto
  have cc: "collection_current i = (loan_amt_current i + interest_current i) * (11 / 100)"
    by (simp add: collection_current_def)
  have c1: "collection_t1 i = (loan_amt_t1 i + interest_t1 i) * (78 / 100)"
    by (simp add: collection_t1_def)
  have c2: "collection_t2 i = (loan_amt_t2 i + interest_t2 i) * (11 / 100)"
    by (simp add: collection_t2_def)
  show ?thesis
    unfolding cc c1 c2 w
    by (simp only: interest_current_def interest_t1_def interest_t2_def simp_thms)
qed

theorem collection_amounts_witness:
  "collection_current default_inputs = 1375000 \<and>
   collection_t1 default_inputs = 7800000 \<and>
   collection_t2 default_inputs = 687500 \<and>
   collection_t1 default_inputs \<noteq>
     (loan_amt_t1 default_inputs + interest_t1 default_inputs) * (75 / 100)"
  using collection_amounts [of default_inputs] by (simp add: default_inputs_def)

subsection \<open>Rounded headcounts\<close>

text \<open>
  C3. For non-negative exact headcounts \<open>nss\<close> and \<open>nc\<close>, each entry of
  \<open>team_rounded\<close> is the floor plus 1 if the fractional part is positive and plus 0
  otherwise, which is the ceiling: floor plus 1 when the fractional part is not zero, the
  value itself when it is whole. The total staff of the tile is the sum of the two
  rounded headcounts.
\<close>

theorem rounded_headcount:
  assumes "0 \<le> nss" and "0 \<le> nc"
  shows "dict_values (team_rounded nss nc) =
           [\<lfloor>nss\<rfloor> + (if 0 < frac nss then 1 else 0), \<lfloor>nc\<rfloor> + (if 0 < frac nc then 1 else 0)] \<and>
         dict_values (team_rounded nss nc) = [\<lceil>nss\<rceil>, \<lceil>nc\<rceil>] \<and>
         (frac nss \<noteq> 0 \<longrightarrow>
            map_of (team_rounded nss nc) ''Sanction & Sales'' = Some (\<lfloor>nss\<rfloor> + 1)) \<and>
         (frac nss = 0 \<longrightarrow>
            map_of (team_rounded nss nc) ''Sanction & Sales'' = Some \<lfloor>nss\<rfloor> \<and>
            of_int \<lfloor>nss\<rfloor> = nss) \<and>
         (frac nc \<noteq> 0 \<longrightarrow>
            map_of (team_rounded nss nc) ''Collection'' = Some (\<lfloor>nc\<rfloor> + 1)) \<and>
         (frac nc = 0 \<longrightarrow>
            map_of (team_rounded nss nc) ''Collection'' = Some \<lfloor>nc\<rfloor> \<and>
            of_int \<lfloor>nc\<rfloor> = nc) \<and>
         total_staff_metric nss nc = \<lceil>nss\<rceil> + \<lceil>nc\<rceil>"
proof -
  have fl: "dict_values (team_rounded nss nc) =
           [\<lfloor>nss\<rfloor> + (if 0 < frac nss then 1 else 0), \<lfloor>nc\<rfloor> + (if 0 < frac nc then 1 else 0)]"
    using assms by (simp add: team_rounded_def dict_values_def round_up_floor)
  have ce: "dict_values (team_rounded nss nc) = [\<lceil>nss\<rceil>, \<lceil>nc\<rceil>]"
    using assms by (simp add: team_rounded_def dict_values_def round_up_ceiling)
  have pos: "frac z \<noteq> 0 \<Longrightarrow> 0 < frac z" for z :: real
    using frac_ge_0 [of z] by linarith
  have whole: "frac z = 0 \<Longrightarrow> of_int \<lfloor>z\<rfloor> = z" for z :: real
    by (simp add: frac_def)
  have s1: "frac nss \<noteq> 0 \<longrightarrow>
              map_of (team_rounded nss nc) ''Sanction & Sales'' = Some (\<lfloor>nss\<rfloor> + 1)"
    using assms pos [of nss] by (simp add: team_rounded_def round_up_floor)
  have s0: "frac nss = 0 \<longrightarrow>
              map_of (team_rounded nss nc) ''Sanction & Sales'' = Some \<lfloor>nss\<rfloor> \<and>
              of_int \<lfloor>nss\<rfloor> = nss"
    using assms whole [of nss] by (simp add: team_rounded_def round_up_floor)
  have c1: "frac nc \<noteq> 0 \<longrightarrow>
              map_of (team_rounded nss nc) ''Collection'' = Some (\<lfloor>nc\<rfloor> + 1)"
    using assms pos [of nc] by (simp add: team_rounded_def round_up_floor)
  have c0: "frac nc = 0 \<longrightarrow>
              map_of (team_rounded nss nc) ''Collection'' = Some \<lfloor>nc\<rfloor> \<and>
              of_int \<lfloor>nc\<rfloor> = nc"
    using assms whole [of nc] by (simp add: team_rounded_def round_up_floor)
  have tot: "total_staff_metric nss nc = \<lceil>nss\<rceil> + \<lceil>nc\<rceil>"
    using round_up_ceiling [OF assms(1)] round_up_ceiling [OF assms(2)]
    by (simp add: total_staff_metric_def)
  from fl ce s1 s0 c1 c0 tot show ?thesis by blast
qed

theorem rounded_headcount_witness:
  "(0::real) \<le> 41.67 \<and> (0::real) \<le> 40 \<and>
   dict_values (team_rounded 41.67 40) = [42, 40] \<and>
   map_of (team_rounded 41.67 40) ''Sanction & Sales'' = Some 42 \<and>
   map_of (team_rounded 41.67 40) ''Collection'' = Some 40 \<and>
   total_staff_metric 41.67 40 = 82"
  using rounded_headcount [of "41.67" "40"] by (simp add: frac_def)

subsection \<open>Repayment\<close>





subsection \<open>Processing fee and bank amount\<close>


subsection \<open>Number of loans\<close>



subsection \<open>Failure\<close>




subsection \<open>Runs\<close>


subsection \<open>The two totals\<close>

text \<open>
  C9. The total of the staff tile (line 198) equals \<open>sum(team_rounded.values())\<close>
  (lines 373 and 417), for all exact headcounts and hence in every pass.
\<close>

theorem staff_totals_agree:
  "total_staff_metric nss nc = summary_total_staff nss nc \<and>
   map_sum id out_total_staff_metric (calculation i) =
     map_sum id out_summary_total_staff (calculation i)"
proof -
  have eq: "total_staff_metric a b = summary_total_staff a b" for a b
    by (simp add: total_staff_metric_def summary_total_staff_def team_rounded_def
          dict_values_def py_sum_def)
  show ?thesis
    by (simp add: eq calculation_def split: sum.splits)
qed

end
